theory Spec2Isabelle
  imports Main
begin

section \<open>The process bootstrap of kvcache\<close>

text \<open>
  The repository consists of one translation unit, \<^verbatim>\<open>src/main.cpp\<close>:
  \<^verbatim>\<open>
  int main(int argc, char** argv) {
      seastar::app_template app;
      app.run(argc, argv, [] {
              std::cout << "kvcache: online with " << seastar::smp::count << " threads.\n";
              return seastar::make_ready_future<>();
      });
  }
  \<close>
  The embedding passes the process state explicitly. Two pieces of state are visible to
  this code: the character sequence written to \<^verbatim>\<open>std::cout\<close>, and the library's static
  variable \<^verbatim>\<open>seastar::smp::count\<close>, which the callback reads. The record is extensible, so
  that every statement below holds for a process state with any further components.
\<close>

subsection \<open>State, futures and stream insertion\<close>

text \<open>
  \<^verbatim>\<open>smp::count\<close> is declared \<^verbatim>\<open>unsigned\<close> in the library's headers; the program only
  prints it, so its value is a natural number here.
\<close>

record world =
  stdout :: string
  smp_count :: nat

text \<open>
  A future is either resolved already or not yet; \<^verbatim>\<open>make_ready_future<>()\<close> builds the
  first kind, with no value.
\<close>

datatype 'a future = Ready 'a | Pending

definition make_ready_future :: "'a \<Rightarrow> 'a future" where
  "make_ready_future v = Ready v"

text \<open>\<^verbatim>\<open>std::cout << s\<close> for a string literal appends its characters.\<close>

definition put_string :: "string \<Rightarrow> 'a world_scheme \<Rightarrow> 'a world_scheme" where
  "put_string s w = w\<lparr>stdout := stdout w @ s\<rparr>"

text \<open>
  \<^verbatim>\<open>std::cout << n\<close> for an unsigned integer appends its decimal digits, most significant
  first, with no sign, padding or separator (the stream's default formatting).
\<close>

definition digit_char :: "nat \<Rightarrow> char" where
  "digit_char d = char_of (48 + d)"

fun decimal :: "nat \<Rightarrow> string" where
  "decimal n = (if n < 10 then [digit_char n] else decimal (n div 10) @ [digit_char (n mod 10)])"

declare decimal.simps [simp del]

definition put_unsigned :: "nat \<Rightarrow> 'a world_scheme \<Rightarrow> 'a world_scheme" where
  "put_unsigned n w = put_string (decimal n) w"

subsection \<open>The application callback\<close>

text \<open>
  The lambda passed to \<^verbatim>\<open>app.run\<close>: three chained insertions into \<^verbatim>\<open>std::cout\<close>,
  evaluated left to right, then \<^verbatim>\<open>return seastar::make_ready_future<>()\<close>.
\<close>

definition app_body :: "'a world_scheme \<Rightarrow> unit future \<times> 'a world_scheme" where
  "app_body w =
     (let w1 = put_string ''kvcache: online with '' w;
          w2 = put_unsigned (smp_count w1) w1;
          w3 = put_string ('' threads.'' @ [CHR 0x0A]) w2
      in (make_ready_future (), w3))"

subsection \<open>The entry point\<close>

text \<open>
  \<^verbatim>\<open>app_template::run\<close> is a function of the runtime library, not of this repository, so
  \<^verbatim>\<open>main\<close> takes it as a parameter: given the command line, the callback and the process
  state, it returns the exit code it reports and the state it leaves, or \<open>None\<close> when it
  never returns to its caller.

  \<^verbatim>\<open>main\<close> calls it as an expression statement, so the \<^verbatim>\<open>int\<close> it returns is discarded, and
  then control reaches the end of \<^verbatim>\<open>main\<close> without a \<^verbatim>\<open>return\<close>, which in C++ is
  \<^verbatim>\<open>return 0\<close>.
\<close>

type_synonym 'w app_run = "string list \<Rightarrow> ('w \<Rightarrow> unit future \<times> 'w) \<Rightarrow> 'w \<Rightarrow> (int \<times> 'w) option"

definition main :: "'a world_scheme app_run \<Rightarrow> string list \<Rightarrow> 'a world_scheme \<Rightarrow> (int \<times> 'a world_scheme) option" where
  "main run argv w =
     (case run argv app_body w of
        None \<Rightarrow> None
      | Some (rc, w') \<Rightarrow> Some (0, w'))"

subsection \<open>The runtime\<close>

text \<open>
  Modelled from the spec: \<^verbatim>\<open>seastar::app_template::run\<close>, the library function that
  \<^verbatim>\<open>main\<close> calls; its code is not in the repository. The spec says that the program
  "starts a multi-core asynchronous runtime and logs the core count, nothing else", and
  that startup can fail "to allocate the configured number of cores". So the startup
  either fails, and the function returns the failure's code without running the callback,
  or succeeds with some number of cores: then \<^verbatim>\<open>smp::count\<close> holds that number, the
  callback runs once, and when the future it returns is resolved the runtime shuts down
  and the function returns 0. With a future that is never resolved it does not return.
  Which startup takes place depends on the command line and the machine; it is a
  parameter.
\<close>

datatype startup = Startup_Failed int | Startup_Ok nat

definition app_run :: "startup \<Rightarrow> 'a world_scheme app_run" where
  "app_run st argv func w =
     (case st of
        Startup_Failed rc \<Rightarrow> Some (rc, w)
      | Startup_Ok n \<Rightarrow>
          (case func (w\<lparr>smp_count := n\<rparr>) of
             (Ready u, w') \<Rightarrow> Some (0, w')
           | (Pending, w') \<Rightarrow> None))"

text \<open>
  For reading a printed number back: the value of a digit string, most significant digit
  first. It is used only to state that \<open>decimal\<close> prints the number it is given.
\<close>

definition digit_value :: "char \<Rightarrow> nat" where
  "digit_value c = of_char c - 48"

definition decimal_value :: "string \<Rightarrow> nat" where
  "decimal_value s = foldl (\<lambda>a c. 10 * a + digit_value c) 0 s"

section \<open>Properties\<close>

subsection \<open>Decimal printing\<close>

lemma digit_value_digit_char: "d < 10 \<Longrightarrow> digit_value (digit_char d) = d"
  by (simp add: digit_value_def digit_char_def)

lemma decimal_value_snoc: "decimal_value (s @ [c]) = 10 * decimal_value s + digit_value c"
  by (simp add: decimal_value_def)

lemma decimal_value_decimal: "decimal_value (decimal n) = n"
proof (induction n rule: decimal.induct)
  case (1 n)
  show ?case
  proof (cases "n < 10")
    case True
    then show ?thesis
      by (simp add: decimal.simps [of n] decimal_value_def digit_value_digit_char)
  next
    case False
    with 1 have "decimal_value (decimal (n div 10)) = n div 10"
      by simp
    with False show ?thesis
      by (simp add: decimal.simps [of n] decimal_value_snoc digit_value_digit_char)
  qed
qed

lemma digit_chars: "map digit_char [0, 1, 2, 3, 4, 5, 6, 7, 8, 9] = ''0123456789''"
  by code_simp

lemma digit_char_range:
  assumes "d < 10"
  shows "digit_char d \<in> set ''0123456789''"
proof -
  from assms have "d \<in> set [0, 1, 2, 3, 4, 5, 6, 7, 8, 9]"
    by auto
  then have "digit_char d \<in> set (map digit_char [0, 1, 2, 3, 4, 5, 6, 7, 8, 9])"
    unfolding set_map by (rule imageI)
  then show ?thesis
    by (simp only: digit_chars)
qed

lemma decimal_digits: "set (decimal n) \<subseteq> set ''0123456789''"
proof (induction n rule: decimal.induct)
  case (1 n)
  show ?case
  proof (cases "n < 10")
    case True
    then show ?thesis
      using digit_char_range [of n] by (simp add: decimal.simps [of n])
  next
    case False
    with 1 have "set (decimal (n div 10)) \<subseteq> set ''0123456789''"
      by simp
    moreover have "digit_char (n mod 10) \<in> set ''0123456789''"
      by (rule digit_char_range) simp
    ultimately show ?thesis
      using False by (simp add: decimal.simps [of n])
  qed
qed

lemma decimal_no_newline: "CHR 0x0A \<notin> set (decimal n)"
  using decimal_digits [of n] by auto

lemma decimal_nonempty: "decimal n \<noteq> []"
  by (simp add: decimal.simps [of n])

subsection \<open>The callback\<close>

lemma app_body_eq:
  "app_body w =
     (Ready (), w\<lparr>stdout := stdout w @ ''kvcache: online with '' @ decimal (smp_count w)
                                     @ '' threads.'' @ [CHR 0x0A]\<rparr>)"
  by (simp add: app_body_def put_string_def put_unsigned_def make_ready_future_def)

lemma banner_one_line:
  "CHR 0x0A \<notin> set (''kvcache: online with '' @ decimal n @ '' threads.'')"
  using decimal_no_newline [of n] by simp

text \<open>
  C10: the callback passed to \<^verbatim>\<open>app.run\<close> returns a future that is resolved already, in
  every process state. It does not suspend or loop: it is a total function whose result is
  \<open>Ready\<close>. Its only effect is to append one line to stdout (the text appended has a
  single line feed, at its end); \<^verbatim>\<open>smp::count\<close> and every other component of the state
  are as they were.
\<close>

theorem app_body_ready:
  "fst (app_body w) = Ready ()
   \<and> snd (app_body w) = w\<lparr>stdout := stdout w @ ''kvcache: online with ''
          @ decimal (smp_count w) @ '' threads.'' @ [CHR 0x0A]\<rparr>
   \<and> CHR 0x0A \<notin> set (''kvcache: online with '' @ decimal (smp_count w) @ '' threads.'')
   \<and> smp_count (snd (app_body w)) = smp_count w
   \<and> world.more (snd (app_body w)) = world.more w"
  using banner_one_line [of "smp_count w"] by (simp add: app_body_eq)

subsection \<open>The entry point\<close>

lemma main_None: "main run argv w = None \<longleftrightarrow> run argv app_body w = None"
  by (simp add: main_def split: option.split)

lemma main_app_run_ok:
  "main (app_run (Startup_Ok n)) argv w =
     Some (0, w\<lparr>smp_count := n, stdout := stdout w @ ''kvcache: online with '' @ decimal n
                                              @ '' threads.'' @ [CHR 0x0A]\<rparr>)"
  by (simp add: main_def app_run_def app_body_eq)

lemma main_app_run_failed: "main (app_run (Startup_Failed rc)) argv w = Some (0, w)"
  by (simp add: main_def app_run_def)

text \<open>
  C1: when the runtime starts, with \<open>n\<close> cores, the program runs to completion, and
  what it has done by then is this: stdout has grown by exactly the line
  \<^verbatim>\<open>kvcache: online with N threads.\<close>, where \<open>N\<close> is the decimal numeral of \<open>n\<close> (reading
  it back gives \<open>n\<close>) and the line feed at the end is the only one written. Nothing else
  of the process state differs from what the runtime's startup left.
\<close>

theorem main_online_line:
  "main (app_run (Startup_Ok n)) argv w =
     Some (0, w\<lparr>smp_count := n, stdout := stdout w @ ''kvcache: online with '' @ decimal n
                                              @ '' threads.'' @ [CHR 0x0A]\<rparr>)
   \<and> decimal_value (decimal n) = n
   \<and> CHR 0x0A \<notin> set (''kvcache: online with '' @ decimal n @ '' threads.'')"
  using main_app_run_ok [of n argv w] decimal_value_decimal [of n] banner_one_line [of n]
  by (simp only: simp_thms)

text \<open>
  An example run on four cores, started as \<^verbatim>\<open>kvcache --smp 4\<close> with nothing written yet.
\<close>

lemma main_four_cores:
  "main (app_run (Startup_Ok 4)) [''kvcache'', ''--smp'', ''4''] \<lparr>stdout = [], smp_count = 0\<rparr>
     = Some (0, \<lparr>stdout = ''kvcache: online with 4 threads.'' @ [CHR 0x0A], smp_count = 4\<rparr>)"
  by (simp add: main_app_run_ok decimal.simps [of 4] digit_char_def) code_simp

text \<open>
  C2, as the spec states it, asks for a non-zero exit code when startup fails. The code
  does not do that: \<^verbatim>\<open>main\<close> drops the value of \<^verbatim>\<open>app.run\<close>. Here the runtime is asked
  for more cores than there are, its startup fails and \<^verbatim>\<open>app.run\<close> returns 1; the exit
  code of the process is 0.
\<close>

theorem main_failed_startup_exits_zero:
  "app_run (Startup_Failed 1) [''kvcache'', ''--smp'', ''4096''] app_body
       \<lparr>stdout = [], smp_count = 0\<rparr> = Some (1, \<lparr>stdout = [], smp_count = 0\<rparr>)
   \<and> map_option fst (main (app_run (Startup_Failed 1)) [''kvcache'', ''--smp'', ''4096'']
       \<lparr>stdout = [], smp_count = 0\<rparr>) = Some 0"
  by (simp add: main_def app_run_def)

text \<open>
  C2, amended: whenever \<^verbatim>\<open>app.run\<close> returns to \<^verbatim>\<open>main\<close>, whatever code it reports, the
  exit code of the process is 0 and the state is the one \<^verbatim>\<open>app.run\<close> left. This holds
  for every runtime, since \<^verbatim>\<open>main\<close> never looks at the code: after a graceful shutdown
  (the code reported is 0) and after a failed startup (the code reported is not 0) alike.
\<close>

theorem main_exit_code_zero:
  "run argv app_body w = Some (rc, w') \<Longrightarrow> main run argv w = Some (0, w')"
  by (simp add: main_def)

text \<open>
  The amended C2 at a graceful run on two cores: the runtime returns 0 after the callback,
  and so does \<^verbatim>\<open>main\<close>.
\<close>

theorem main_exit_code_zero_witness:
  "app_run (Startup_Ok 2) [''kvcache''] app_body \<lparr>stdout = [], smp_count = 0\<rparr>
     = Some (0, \<lparr>stdout = ''kvcache: online with 2 threads.'' @ [CHR 0x0A], smp_count = 2\<rparr>)
   \<and> main (app_run (Startup_Ok 2)) [''kvcache''] \<lparr>stdout = [], smp_count = 0\<rparr>
     = Some (0, \<lparr>stdout = ''kvcache: online with 2 threads.'' @ [CHR 0x0A], smp_count = 2\<rparr>)"
proof -
  have d: "decimal 2 = ''2''"
    by code_simp
  have h: "app_run (Startup_Ok 2) [''kvcache''] app_body \<lparr>stdout = [], smp_count = 0\<rparr>
     = Some (0, \<lparr>stdout = ''kvcache: online with 2 threads.'' @ [CHR 0x0A], smp_count = 2\<rparr>)"
    by (simp add: app_run_def app_body_eq d)
  show ?thesis
    using h main_exit_code_zero [of "app_run (Startup_Ok 2)" "[''kvcache'']" _ 0, OF h]
    by simp
qed

end
